theory Spec2Isabelle
  imports Complex_Main "HOL-Library.Word"
begin

section \<open>Monte Carlo estimation of pi on a CUDA device: the model\<close>

text \<open>
  The program is the single file \<^verbatim>\<open>pi_monte_carlo.cu\<close>: a kernel
  \<^verbatim>\<open>estimate_pi_kernel\<close>, run by a grid of blocks of 256 threads, and \<^verbatim>\<open>main\<close>,
  which parses one optional argument, sizes the grid, launches the kernel once and sums
  the per-block results.

  \<^verbatim>\<open>unsigned long long\<close> is a 64-bit word and \<^verbatim>\<open>unsigned int\<close> a 32-bit word; their
  arithmetic wraps. Loop counters that cannot overflow (\<^verbatim>\<open>tid\<close>, \<^verbatim>\<open>s\<close>, block indices)
  are natural numbers.
\<close>

type_synonym u64 = "64 word"
type_synonym u32 = "32 word"

definition THREADS_PER_BLOCK :: nat where
  "THREADS_PER_BLOCK = 256"

subsection \<open>The sampler: lines 32 to 48 of the kernel\<close>

text \<open>
  cuRAND is not part of the repository. The generator is a parameter of the model:
  \<open>curand_init\<close> maps the seed of a thread to its private state (sequence and offset
  are the constants 0 of line 36), and \<open>curand_uniform\<close> returns one variate and the
  next state. The carrier \<open>'f\<close> stands for \<^verbatim>\<open>float\<close> with its own (rounded)
  multiplication, addition and comparison; nothing is assumed about them.

  The loop of line 39 counts \<open>i\<close> from 0 up to \<open>samples_per_thread\<close> in 64 bits.
\<close>

function sample_loop ::
  "('st \<Rightarrow> 'f::{times,plus,one,ord} \<times> 'st) \<Rightarrow> u64 \<Rightarrow> u64 \<Rightarrow> 'st \<Rightarrow> u64 \<Rightarrow> u64" where
  "sample_loop curand_uniform samples_per_thread i state local_count =
     (if i < samples_per_thread then
        (case curand_uniform state of (x, state1) \<Rightarrow>
         case curand_uniform state1 of (y, state2) \<Rightarrow>
           sample_loop curand_uniform samples_per_thread (i + 1) state2
             (if x * x + y * y \<le> 1 then local_count + 1 else local_count))
      else local_count)"
  by pat_completeness auto
termination
proof (relation "measure (\<lambda>(curand_uniform, samples_per_thread, i, state, local_count).
                   unat samples_per_thread - unat i)")
  show "wf (measure (\<lambda>(curand_uniform :: 'st \<Rightarrow> 'f::{times,plus,one,ord} \<times> 'st, samples_per_thread, i,
                      state :: 'st, local_count :: u64). unat samples_per_thread - unat i))"
    by simp
next
  fix curand_uniform :: "'st \<Rightarrow> 'f::{times,plus,one,ord} \<times> 'st"
  fix samples_per_thread i :: u64 and state :: 'st and local_count :: u64
  fix x y :: 'f and state2 :: 'st
  assume "i < samples_per_thread"
  then have "unat i < unat samples_per_thread" and "unat (i + 1) = Suc (unat i)"
    by unat_arith+
  then show "((curand_uniform, samples_per_thread, i + 1, state2,
               if x * x + y * y \<le> 1 then local_count + 1 else local_count),
              (curand_uniform, samples_per_thread, i, state, local_count))
             \<in> measure (\<lambda>(curand_uniform, samples_per_thread, i, state, local_count).
                   unat samples_per_thread - unat i)"
    by simp
qed

declare sample_loop.simps [simp del]

text \<open>
  Line 28: the linear index of a thread, computed in \<^verbatim>\<open>unsigned int\<close>; line 36 adds it
  to the 64-bit seed.
\<close>

definition global_thread_id :: "nat \<Rightarrow> nat \<Rightarrow> nat \<Rightarrow> u32" where
  "global_thread_id block_id blockDim tid = of_nat block_id * of_nat blockDim + of_nat tid"

definition thread_state ::
  "(u64 \<Rightarrow> 'st) \<Rightarrow> u64 \<Rightarrow> nat \<Rightarrow> nat \<Rightarrow> nat \<Rightarrow> 'st" where
  "thread_state curand_init seed blockDim block_id tid =
     curand_init (seed + ucast (global_thread_id block_id blockDim tid))"

text \<open>Lines 32 to 48 for one thread: its private \<^verbatim>\<open>local_count\<close> when the loop ends.\<close>

definition thread_local_count ::
  "(u64 \<Rightarrow> 'st) \<Rightarrow> ('st \<Rightarrow> 'f::{times,plus,one,ord} \<times> 'st) \<Rightarrow> u64 \<Rightarrow> u64 \<Rightarrow>
   nat \<Rightarrow> nat \<Rightarrow> nat \<Rightarrow> u64" where
  "thread_local_count curand_init curand_uniform seed samples_per_thread blockDim block_id tid =
     sample_loop curand_uniform samples_per_thread 0
       (thread_state curand_init seed blockDim block_id tid) 0"

text \<open>
  The pairs a thread generates, in the order of generation: two calls of the generator
  per pair, \<open>x\<close> first. This is the reference the sampler's count is compared with.
\<close>

fun draws :: "('st \<Rightarrow> 'f \<times> 'st) \<Rightarrow> 'st \<Rightarrow> nat \<Rightarrow> ('f \<times> 'f) list" where
  "draws curand_uniform state 0 = []"
| "draws curand_uniform state (Suc n) =
     (case curand_uniform state of (x, state1) \<Rightarrow>
      case curand_uniform state1 of (y, state2) \<Rightarrow>
        (x, y) # draws curand_uniform state2 n)"

definition inside :: "'f::{times,plus,one,ord} \<times> 'f \<Rightarrow> bool" where
  "inside p = (fst p * fst p + snd p * snd p \<le> 1)"

subsection \<open>The reducer: lines 50 to 65 of the kernel\<close>

text \<open>
  Between two barriers every thread of the block runs the body of the loop of line 55
  once, in an order the hardware chooses. \<open>thread_step s tid\<close> is that body for one
  thread; a schedule gives, for a step size \<open>s\<close>, the order in which the threads of the
  block run it. \<^verbatim>\<open>__syncthreads\<close> is the boundary between two folds.
\<close>

definition thread_step :: "nat \<Rightarrow> nat \<Rightarrow> u64 list \<Rightarrow> u64 list" where
  "thread_step s tid shared_counts =
     (if tid < s
      then shared_counts[tid := shared_counts ! tid + shared_counts ! (tid + s)]
      else shared_counts)"

function reduce_loop :: "(nat \<Rightarrow> nat list) \<Rightarrow> nat \<Rightarrow> u64 list \<Rightarrow> u64 list" where
  "reduce_loop sched s shared_counts =
     (if s > 0
      then reduce_loop sched (s div 2) (fold (thread_step s) (sched s) shared_counts)
      else shared_counts)"
  by pat_completeness auto
termination
  by (relation "measure (\<lambda>(sched, s, shared_counts). s)") auto

declare reduce_loop.simps [simp del]

text \<open>A schedule is valid for a block of \<open>n\<close> threads when every step runs each thread once.\<close>

definition valid_schedule :: "nat \<Rightarrow> (nat \<Rightarrow> nat list) \<Rightarrow> bool" where
  "valid_schedule n sched = (\<forall>s. distinct (sched s) \<and> set (sched s) = {..<n})"

text \<open>
  Lines 55 to 60 on the scratch of a block of \<open>blockDim\<close> threads, and the value of
  slot 0 afterwards.
\<close>

definition block_reduce :: "(nat \<Rightarrow> nat list) \<Rightarrow> nat \<Rightarrow> u64 list \<Rightarrow> u64" where
  "block_reduce sched blockDim shared_counts =
     reduce_loop sched (blockDim div 2) shared_counts ! 0"

text \<open>Line 51, run by every thread of the block before the first barrier.\<close>

definition block_shared_counts ::
  "(u64 \<Rightarrow> 'st) \<Rightarrow> ('st \<Rightarrow> 'f::{times,plus,one,ord} \<times> 'st) \<Rightarrow> u64 \<Rightarrow> u64 \<Rightarrow>
   nat \<Rightarrow> nat \<Rightarrow> u64 list" where
  "block_shared_counts curand_init curand_uniform seed samples_per_thread blockDim block_id =
     map (thread_local_count curand_init curand_uniform seed samples_per_thread blockDim block_id)
       [0..<blockDim]"

text \<open>
  Lines 63 to 65: what a thread stores to \<^verbatim>\<open>block_results\<close> after the last barrier.
  A store is recorded with the thread that made it.
\<close>

record write_event =
  writer_block :: nat
  writer_tid :: nat
  slot :: nat
  written :: u64

definition result_write :: "nat \<Rightarrow> nat \<Rightarrow> u64 list \<Rightarrow> write_event option" where
  "result_write tid block_id shared_counts =
     (if tid = 0
      then Some \<lparr>writer_block = block_id, writer_tid = tid, slot = block_id,
                 written = shared_counts ! 0\<rparr>
      else None)"

definition block_writes ::
  "(u64 \<Rightarrow> 'st) \<Rightarrow> ('st \<Rightarrow> 'f::{times,plus,one,ord} \<times> 'st) \<Rightarrow> u64 \<Rightarrow> u64 \<Rightarrow>
   (nat \<Rightarrow> nat \<Rightarrow> nat list) \<Rightarrow> nat \<Rightarrow> nat \<Rightarrow> write_event list" where
  "block_writes curand_init curand_uniform seed samples_per_thread sched blockDim block_id =
     (let shared_counts =
            reduce_loop (sched block_id) (blockDim div 2)
              (block_shared_counts curand_init curand_uniform seed samples_per_thread
                 blockDim block_id)
      in List.map_filter (\<lambda>tid. result_write tid block_id shared_counts) [0..<blockDim])"

text \<open>
  The kernel over a grid of \<open>gridDim\<close> blocks of \<open>blockDim\<close> threads: every store to
  global memory that the launch makes, block after block. The blocks share nothing but
  \<^verbatim>\<open>block_results\<close>, so the order in which the hardware runs them shows only in the
  order of this list.
\<close>

definition estimate_pi_kernel ::
  "(u64 \<Rightarrow> 'st) \<Rightarrow> ('st \<Rightarrow> 'f::{times,plus,one,ord} \<times> 'st) \<Rightarrow>
   (nat \<Rightarrow> nat \<Rightarrow> nat list) \<Rightarrow> nat \<Rightarrow> nat \<Rightarrow> u64 \<Rightarrow> u64 \<Rightarrow> write_event list" where
  "estimate_pi_kernel curand_init curand_uniform sched gridDim blockDim seed samples_per_thread =
     concat (map (block_writes curand_init curand_uniform seed samples_per_thread sched blockDim)
               [0..<gridDim])"

definition apply_writes :: "write_event list \<Rightarrow> u64 list \<Rightarrow> u64 list" where
  "apply_writes ws block_results = fold (\<lambda>w mem. mem[slot w := written w]) ws block_results"

subsection \<open>The orchestrator: \<^verbatim>\<open>main\<close>\<close>

text \<open>
  \<^verbatim>\<open>std::stoull\<close> belongs to the C++ standard library. It is modelled after the
  standard (\<^verbatim>\<open>strtoull\<close> in base 10): leading white space is skipped, one sign is
  accepted, the longest run of decimal digits is converted and the rest of the string is
  ignored; no digit at all throws \<^verbatim>\<open>std::invalid_argument\<close>, a value above
  \<open>2\<^sup>6\<^sup>4 - 1\<close> throws \<^verbatim>\<open>std::out_of_range\<close>, and a minus sign negates the result in
  64 bits.
\<close>

datatype stoull_error = Invalid_argument | Out_of_range

definition isspace :: "char \<Rightarrow> bool" where
  "isspace c = ((of_char c :: nat) = 32 \<or> (9 \<le> (of_char c :: nat) \<and> (of_char c :: nat) \<le> 13))"

definition isdigit :: "char \<Rightarrow> bool" where
  "isdigit c = (48 \<le> (of_char c :: nat) \<and> (of_char c :: nat) \<le> 57)"

definition digit_val :: "char \<Rightarrow> nat" where
  "digit_val c = of_char c - 48"

definition decimal_value :: "string \<Rightarrow> nat" where
  "decimal_value ds = foldl (\<lambda>a c. 10 * a + digit_val c) 0 ds"

fun strip_sign :: "string \<Rightarrow> bool \<times> string" where
  "strip_sign [] = (False, [])"
| "strip_sign (c # cs) =
     (if c = CHR ''-'' then (True, cs)
      else if c = CHR ''+'' then (False, cs)
      else (False, c # cs))"

definition stoull :: "string \<Rightarrow> stoull_error + u64" where
  "stoull str =
     (case strip_sign (dropWhile isspace str) of (negative, rest) \<Rightarrow>
        (let ds = takeWhile isdigit rest in
         if ds = [] then Inl Invalid_argument
         else if decimal_value ds \<ge> 2 ^ 64 then Inl Out_of_range
         else Inr (if negative then - of_nat (decimal_value ds) else of_nat (decimal_value ds))))"

text \<open>Lines 69 to 77. \<open>argv\<close> includes the program's name, \<open>argc\<close> is its length.\<close>

definition parse_total_samples :: "string list \<Rightarrow> stoull_error + u64" where
  "parse_total_samples argv =
     (if length argv > 1 then stoull (argv ! 1) else Inr (push_bit 30 1))"

text \<open>Lines 89 to 92: the sample plan.\<close>

definition total_threads_of :: "int \<Rightarrow> u64" where
  "total_threads_of num_blocks = of_int num_blocks * of_nat THREADS_PER_BLOCK"

definition samples_per_thread_of :: "u64 \<Rightarrow> u64 \<Rightarrow> u64" where
  "samples_per_thread_of total_samples total_threads =
     (total_samples + total_threads - 1) div total_threads"

definition actual_total_samples_of :: "u64 \<Rightarrow> u64 \<Rightarrow> u64" where
  "actual_total_samples_of total_samples total_threads =
     samples_per_thread_of total_samples total_threads * total_threads"

record plan =
  num_blocks :: int
  total_threads :: u64
  samples_per_thread :: u64
  total_samples :: u64
  actual_total_samples :: u64

definition make_plan :: "int \<Rightarrow> u64 \<Rightarrow> plan" where
  "make_plan nb requested =
     \<lparr>num_blocks = nb,
      total_threads = total_threads_of nb,
      samples_per_thread = samples_per_thread_of requested (total_threads_of nb),
      total_samples = requested,
      actual_total_samples = actual_total_samples_of requested (total_threads_of nb)\<rparr>"

text \<open>Lines 124 to 127: the sequential sum of the block results on the host.\<close>

definition sum_block_results :: "nat \<Rightarrow> u64 list \<Rightarrow> u64" where
  "sum_block_results nb h_block_results =
     foldl (\<lambda>total_in_circle i. total_in_circle + h_block_results ! i) 0 [0..<nb]"

text \<open>
  Line 135 divides two doubles with no test on the divisor. With IEEE-754 arithmetic,
  as on every host CUDA supports, \<open>0/0\<close> is a NaN and a positive value over 0 is
  infinite; both operands come from unsigned counts, so they are never negative. A
  finite quotient is kept as the exact rational (its rounding is not modelled).
\<close>

datatype pi_value = Pi_quotient rat | Pi_infinite | Pi_not_a_number

definition pi_estimate_of :: "u64 \<Rightarrow> u64 \<Rightarrow> pi_value" where
  "pi_estimate_of total_in_circle actual =
     (if actual = 0
      then (if total_in_circle = 0 then Pi_not_a_number else Pi_infinite)
      else Pi_quotient (4 * of_nat (unat total_in_circle) / of_nat (unat actual)))"

record results =
  total_in_circle :: u64
  pi_estimate :: pi_value

text \<open>
  The calls wrapped in \<^verbatim>\<open>CUDA_CHECK\<close>, in program order. A failing call prints one
  line and exits with \<^verbatim>\<open>EXIT_FAILURE\<close>.
\<close>

datatype cuda_call =
  GetDevice | GetDeviceProperties | Malloc | EventCreateStart | EventCreateStop
| EventRecordStart | GetLastError | EventRecordStop | Memcpy | EventSynchronize
| EventElapsedTime | EventDestroyStart | EventDestroyStop | Free

datatype diagnostic = Invalid_argument_message string | Cuda_error_message cuda_call

datatype outcome = Exit_status nat | Uncaught_exception | Undefined_behaviour

text \<open>
  What the program does not compute itself: the device and its failures, the clock, the
  generator, the order of the threads in each reduction step of each block, and the
  content of device memory before the kernel writes it.
\<close>

record ('st, 'f) env =
  multiProcessorCount :: int
  cuda_fails :: "cuda_call \<Rightarrow> bool"
  time_now :: u64
  rng_init :: "u64 \<Rightarrow> 'st"
  rng_uniform :: "'st \<Rightarrow> 'f \<times> 'st"
  schedule :: "nat \<Rightarrow> nat \<Rightarrow> nat list"
  uninitialised :: "nat \<Rightarrow> u64"

record run =
  outcome :: outcome
  diagnostics :: "diagnostic list"
  kernel_dispatched :: bool
  printed_plan :: "plan option"
  printed_results :: "results option"

definition cuda_exit :: "cuda_call \<Rightarrow> bool \<Rightarrow> plan option \<Rightarrow> results option \<Rightarrow> run" where
  "cuda_exit c dispatched p r =
     \<lparr>outcome = Exit_status 1, diagnostics = [Cuda_error_message c],
      kernel_dispatched = dispatched, printed_plan = p, printed_results = r\<rparr>"

text \<open>Lines 116 to 121: the launch, and the block results copied back to the host.\<close>

definition launch :: "('st, 'f::{times,plus,one,ord}) env \<Rightarrow> plan \<Rightarrow> u64 list" where
  "launch env p =
     apply_writes
       (estimate_pi_kernel (rng_init env) (rng_uniform env) (schedule env)
          (nat (num_blocks p)) THREADS_PER_BLOCK (time_now env) (samples_per_thread p))
       (map (uninitialised env) [0..<nat (num_blocks p)])"

text \<open>
  Lines 79 to 151. \<open>multiProcessorCount * 32\<close> is a signed 32-bit product, undefined
  when it overflows; a grid of no thread makes line 91 divide by zero; a negative block
  count makes the vector of line 102 throw. The plan is printed by lines 94 to 99, the
  results by lines 139 to 144. \<open>kernel_dispatched\<close> tells whether line 116 was reached.
\<close>

definition simulate :: "('st, 'f::{times,plus,one,ord}) env \<Rightarrow> u64 \<Rightarrow> run" where
  "simulate env requested =
     (case find (cuda_fails env) [GetDevice, GetDeviceProperties] of
        Some c \<Rightarrow> cuda_exit c False None None
      | None \<Rightarrow>
          let nb = multiProcessorCount env * 32 in
          if nb < - (2 ^ 31) \<or> 2 ^ 31 \<le> nb \<or> total_threads_of nb = 0 then
            \<lparr>outcome = Undefined_behaviour, diagnostics = [],
             kernel_dispatched = False, printed_plan = None, printed_results = None\<rparr>
          else
            let p = make_plan nb requested in
            if nb < 0 then
              \<lparr>outcome = Uncaught_exception, diagnostics = [],
               kernel_dispatched = False, printed_plan = Some p, printed_results = None\<rparr>
            else
              (case find (cuda_fails env)
                      [Malloc, EventCreateStart, EventCreateStop, EventRecordStart] of
                 Some c \<Rightarrow> cuda_exit c False (Some p) None
               | None \<Rightarrow>
                   (case find (cuda_fails env) [GetLastError, EventRecordStop, Memcpy] of
                      Some c \<Rightarrow> cuda_exit c True (Some p) None
                    | None \<Rightarrow>
                        let hits = sum_block_results (nat nb) (launch env p) in
                        (case find (cuda_fails env) [EventSynchronize, EventElapsedTime] of
                           Some c \<Rightarrow> cuda_exit c True (Some p) None
                         | None \<Rightarrow>
                             let r = \<lparr>total_in_circle = hits,
                                      pi_estimate = pi_estimate_of hits (actual_total_samples p)\<rparr>
                             in (case find (cuda_fails env)
                                       [EventDestroyStart, EventDestroyStop, Free] of
                                   Some c \<Rightarrow> cuda_exit c True (Some p) (Some r)
                                 | None \<Rightarrow>
                                     \<lparr>outcome = Exit_status 0, diagnostics = [],
                                      kernel_dispatched = True, printed_plan = Some p,
                                      printed_results = Some r\<rparr>)))))"

definition main :: "('st, 'f::{times,plus,one,ord}) env \<Rightarrow> string list \<Rightarrow> run" where
  "main env argv =
     (case parse_total_samples argv of
        Inl Invalid_argument \<Rightarrow>
          \<lparr>outcome = Exit_status 1,
           diagnostics = [Invalid_argument_message (argv ! 1)],
           kernel_dispatched = False, printed_plan = None, printed_results = None\<rparr>
      | Inl Out_of_range \<Rightarrow>
          \<lparr>outcome = Uncaught_exception, diagnostics = [],
           kernel_dispatched = False, printed_plan = None, printed_results = None\<rparr>
      | Inr requested \<Rightarrow> simulate env requested)"

subsection \<open>Reference notions for the command line\<close>

text \<open>
  The argument the interface asks for is an unsigned integer: a decimal numeral, that
  is a non-empty string of decimal digits. Every other string is non-numeric; \<open>abc\<close>
  is, and so are \<open>12abc\<close> and the empty string.
\<close>

definition decimal_numeral :: "string \<Rightarrow> bool" where
  "decimal_numeral arg = (arg \<noteq> [] \<and> list_all isdigit arg)"

definition non_numeric :: "string \<Rightarrow> bool" where
  "non_numeric arg = (\<not> decimal_numeral arg)"

text \<open>
  The strings that hold no number to read, a smaller class: after leading white space
  and one optional sign, the string ends or goes on with a character that is not a
  decimal digit.
\<close>

definition no_leading_number :: "string \<Rightarrow> bool" where
  "no_leading_number arg =
     (case snd (strip_sign (dropWhile isspace arg)) of [] \<Rightarrow> True | c # cs \<Rightarrow> \<not> isdigit c)"

subsection \<open>A concrete environment\<close>

text \<open>
  The device of the README (24 multiprocessors, hence 768 blocks and 196608 threads), no
  failing call, a generator whose variates alternate between 0 and 1 over the integers,
  and threads that run each reduction step from the highest index down.
\<close>

definition readme_env :: "(nat, int) env" where
  "readme_env =
     \<lparr>multiProcessorCount = 24,
      cuda_fails = (\<lambda>c. False),
      time_now = 1762128000,
      rng_init = unat,
      rng_uniform = (\<lambda>st. (int (st mod 2), Suc st)),
      schedule = (\<lambda>b s. rev [0..<256]),
      uninitialised = (\<lambda>i. 0)\<rparr>"

section \<open>The sampler counts the hits among the pairs it draws\<close>

lemma sample_loop_count:
  "unat n - unat i = k \<Longrightarrow> i \<le> n \<Longrightarrow> unat c + k < 2 ^ 64 \<Longrightarrow>
   unat (sample_loop u n i st c) = unat c + length (filter inside (draws u st k))"
proof (induction k arbitrary: i st c)
  case 0
  then have "\<not> i < n" by unat_arith
  then show ?case by (simp add: sample_loop.simps [of u n i])
next
  case (Suc k)
  then have lt: "i < n" by unat_arith
  then have i1: "unat (i + 1) = Suc (unat i)" and le: "i + 1 \<le> n" by unat_arith+
  obtain x st1 where x: "u st = (x, st1)" by (cases "u st")
  obtain y st2 where y: "u st1 = (y, st2)" by (cases "u st1")
  let ?c = "if x * x + y * y \<le> 1 then c + 1 else c"
  have k: "unat n - unat (i + 1) = k" using Suc.prems(1) i1 by simp
  have "unat c + unat (1 :: u64) < 2 ^ LENGTH(64)"
    using Suc.prems(3) by simp
  then have c1: "unat (c + 1) = Suc (unat c)"
    by (simp add: unat_add_lem [THEN iffD1])
  have bound: "unat ?c + k < 2 ^ 64" using Suc.prems(3) c1 by simp
  have "sample_loop u n i st c = sample_loop u n (i + 1) st2 ?c"
    using lt x y by (simp add: sample_loop.simps [of u n i])
  also have "unat \<dots> = unat ?c + length (filter inside (draws u st2 k))"
    by (rule Suc.IH [OF k le bound])
  finally show ?case using x y c1 by (simp add: inside_def)
qed

lemma unat_u64_less: "unat (n :: u64) < 2 ^ 64"
  using unsigned_less [of n, where 'a = nat] by simp

lemma thread_local_count_draws:
  "unat (thread_local_count ci u seed n bd b tid) =
     length (filter inside (draws u (thread_state ci seed bd b tid) (unat n)))"
  using sample_loop_count [of n 0 "unat n" 0 u] unat_u64_less [of n]
  by (simp add: thread_local_count_def)

lemma length_draws [simp]: "length (draws u st k) = k"
  by (induction k arbitrary: st) (simp_all split: prod.splits)

lemma thread_local_count_le:
  "unat (thread_local_count ci u seed n bd b tid) \<le> unat n"
  using length_filter_le [of inside "draws u (thread_state ci seed bd b tid) (unat n)"]
  by (simp add: thread_local_count_draws)

lemma draws_Suc_snoc:
  "draws u st (Suc k) = draws u st k @ [draws u st (Suc k) ! k]"
proof (induction k arbitrary: st)
  case 0
  show ?case by (simp split: prod.splits)
next
  case (Suc k)
  obtain x st1 where x: "u st = (x, st1)" by (cases "u st")
  obtain y st2 where y: "u st1 = (y, st2)" by (cases "u st1")
  have "draws u st (Suc (Suc k)) = (x, y) # draws u st2 (Suc k)"
    using x y by simp
  also have "\<dots> = (x, y) # (draws u st2 k @ [draws u st2 (Suc k) ! k])"
    using Suc.IH [of st2] by simp
  finally show ?case using x y by simp
qed

text \<open>
  C4. For every generator, every seed and every sample count \<open>N\<close>, a worker draws
  exactly \<open>N\<close> pairs, and its local hit count is the number of those pairs \<open>(x, y)\<close>
  with \<open>x * x + y * y \<le> 1\<close>, the sum and the products being those the code computes.
  The generator is a parameter, so this holds in particular when it yields independent
  uniform variates.
\<close>

theorem sampler_counts_hits:
  "length (draws curand_uniform (thread_state curand_init seed blockDim block_id tid) (unat N))
     = unat N
   \<and> unat (thread_local_count curand_init curand_uniform seed N blockDim block_id tid) =
     length (filter (\<lambda>(x, y). x * x + y * y \<le> 1)
       (draws curand_uniform (thread_state curand_init seed blockDim block_id tid) (unat N)))"
proof -
  have "inside = (\<lambda>(x :: 'a, y). x * x + y * y \<le> 1)"
    by (auto simp: inside_def fun_eq_iff)
  then show ?thesis
    using thread_local_count_draws [of curand_init curand_uniform seed N blockDim block_id tid]
    by simp
qed

lemma thread_local_count_step:
  assumes "unat N < 2 ^ 64 - 1"
      and "draws u (thread_state ci seed bd b tid) (Suc (unat N)) ! unat N = (x, y)"
  shows "thread_local_count ci u seed (N + 1) bd b tid =
         thread_local_count ci u seed N bd b tid + (if x * x + y * y \<le> 1 then 1 else 0)"
proof -
  let ?st = "thread_state ci seed bd b tid"
  have "unat N + unat (1 :: u64) < 2 ^ LENGTH(64)" using assms(1) by simp
  then have N1: "unat (N + 1) = Suc (unat N)"
    by (simp add: unat_add_lem [THEN iffD1])
  have old: "unat (thread_local_count ci u seed N bd b tid) \<le> unat N"
    by (rule thread_local_count_le)
  let ?d = "(if x * x + y * y \<le> 1 then 1 else 0) :: u64"
  have "unat (thread_local_count ci u seed N bd b tid) + unat ?d < 2 ^ LENGTH(64)"
    using old assms(1) by simp
  then have sum: "unat (thread_local_count ci u seed N bd b tid + ?d) =
      unat (thread_local_count ci u seed N bd b tid) + unat ?d"
    by (simp only: unat_add_lem [THEN iffD1])
  have "unat (thread_local_count ci u seed (N + 1) bd b tid) =
      length (filter inside (draws u ?st (Suc (unat N))))"
    by (simp add: thread_local_count_draws N1)
  also have "\<dots> = length (filter inside (draws u ?st (unat N))) + (if inside (x, y) then 1 else 0)"
    using draws_Suc_snoc [of u ?st "unat N"] assms(2) by simp
  also have "\<dots> = unat (thread_local_count ci u seed N bd b tid) + unat ?d"
    by (simp add: thread_local_count_draws inside_def)
  finally show ?thesis using sum by (simp add: word_unat_eq_iff)
qed

text \<open>
  C5. The pair drawn in iteration \<open>N\<close> (counted from 0) raises the worker's count by
  one exactly when \<open>x * x + y * y \<le> 1\<close>, and leaves it unchanged otherwise; a pair
  with \<open>x * x + y * y\<close> equal to 1 is counted, since the test is \<open>\<le>\<close> and \<open>1 \<le> 1\<close>
  holds for the numbers the code compares.
\<close>

theorem boundary_point_is_a_hit:
  fixes x y :: "'f::{times,plus,one,ord}"
  assumes "unat N < 2 ^ 64 - 1"
      and "draws curand_uniform (thread_state curand_init seed blockDim block_id tid)
             (Suc (unat N)) ! unat N = (x, y)"
  shows "(x * x + y * y \<le> 1 \<longrightarrow>
            thread_local_count curand_init curand_uniform seed (N + 1) blockDim block_id tid =
            thread_local_count curand_init curand_uniform seed N blockDim block_id tid + 1)
       \<and> (\<not> x * x + y * y \<le> 1 \<longrightarrow>
            thread_local_count curand_init curand_uniform seed (N + 1) blockDim block_id tid =
            thread_local_count curand_init curand_uniform seed N blockDim block_id tid)
       \<and> (x * x + y * y = 1 \<and> (1 :: 'f) \<le> 1 \<longrightarrow>
            thread_local_count curand_init curand_uniform seed (N + 1) blockDim block_id tid =
            thread_local_count curand_init curand_uniform seed N blockDim block_id tid + 1)"
  using thread_local_count_step [OF assms] by simp

theorem boundary_point_is_a_hit_witness:
  "thread_local_count unat (\<lambda>st. (int (st mod 2), Suc st)) 0 (0 + 1) 256 0 0 =
   thread_local_count unat (\<lambda>st. (int (st mod 2), Suc st)) 0 0 256 0 0 + 1"
proof -
  have N: "unat (0 :: u64) < 2 ^ 64 - 1" by simp
  have d: "draws (\<lambda>st. (int (st mod 2), Suc st)) (thread_state unat 0 256 0 0)
             (Suc (unat (0 :: u64))) ! unat (0 :: u64) = (0, 1)"
    by (simp add: thread_state_def global_thread_id_def)
  have tie: "(0 :: int) * 0 + 1 * 1 = 1 \<and> (1 :: int) \<le> 1" by simp
  show ?thesis
    using boundary_point_is_a_hit [OF N d] tie by blast
qed

section \<open>The tree reduction\<close>

lemma length_thread_step [simp]: "length (thread_step s t sh) = length sh"
  by (simp add: thread_step_def)

lemma length_fold_thread_step [simp]: "length (fold (thread_step s) ts sh) = length sh"
  by (induction ts arbitrary: sh) simp_all

text \<open>
  One step between two barriers, whatever the order of the threads: a thread below \<open>s\<close>
  reads a slot at or above \<open>s\<close>, which no thread writes in this step.
\<close>

lemma fold_thread_step_nth:
  "distinct ts \<Longrightarrow> i < length sh \<Longrightarrow> \<forall>t\<in>set ts. t < length sh \<Longrightarrow>
   fold (thread_step s) ts sh ! i =
     (if i \<in> set ts \<and> i < s then sh ! i + sh ! (i + s) else sh ! i)"
proof (induction ts arbitrary: sh)
  case Nil
  then show ?case by simp
next
  case (Cons t ts)
  let ?sh = "thread_step s t sh"
  have IH: "fold (thread_step s) ts ?sh ! i =
     (if i \<in> set ts \<and> i < s then ?sh ! i + ?sh ! (i + s) else ?sh ! i)"
    using Cons.IH [of ?sh] Cons.prems by simp
  have far: "i < s \<Longrightarrow> ?sh ! (i + s) = sh ! (i + s)"
    by (simp add: thread_step_def)
  have other: "i \<noteq> t \<Longrightarrow> ?sh ! i = sh ! i"
    by (simp add: thread_step_def)
  have self: "i = t \<Longrightarrow> i < s \<Longrightarrow> ?sh ! i = sh ! i + sh ! (i + s)"
    using Cons.prems by (simp add: thread_step_def)
  have self': "i = t \<Longrightarrow> \<not> i < s \<Longrightarrow> ?sh ! i = sh ! i"
    by (simp add: thread_step_def)
  show ?case
    using IH far other self self' Cons.prems(1) by (cases "i = t") auto
qed

lemma phase_sum:
  assumes "distinct ts" "set ts = {..<n}" "2 * s \<le> n" "n \<le> length sh"
  shows "(\<Sum>i < s. fold (thread_step s) ts sh ! i) = (\<Sum>i < 2 * s. sh ! i)"
proof -
  have "(\<Sum>i < s. fold (thread_step s) ts sh ! i) = (\<Sum>i < s. sh ! i + sh ! (i + s))"
  proof (rule sum.cong)
    fix i assume "i \<in> {..< s}"
    then have "i < s" by simp
    with assms have "i \<in> set ts" "i < length sh" "\<forall>t\<in>set ts. t < length sh" by auto
    with \<open>i < s\<close> show "fold (thread_step s) ts sh ! i = sh ! i + sh ! (i + s)"
      using fold_thread_step_nth [OF assms(1), of i sh s] by simp
  qed simp
  also have "\<dots> = (\<Sum>i < s. sh ! i) + (\<Sum>i < s. sh ! (i + s))"
    by (simp add: sum.distrib)
  also have "(\<Sum>i < s. sh ! (i + s)) = (\<Sum>i = s..<2 * s. sh ! i)"
    using sum.shift_bounds_nat_ivl [of "\<lambda>i. sh ! i" 0 s s]
    by (simp add: lessThan_atLeast0 mult_2)
  also have "(\<Sum>i < s. sh ! i) + (\<Sum>i = s..<2 * s. sh ! i) = (\<Sum>i < 2 * s. sh ! i)"
    using sum.atLeastLessThan_concat [of 0 s "2 * s" "\<lambda>i. sh ! i"]
    by (simp add: lessThan_atLeast0)
  finally show ?thesis .
qed

lemma reduce_loop_pow2:
  assumes "valid_schedule n sched"
  shows "2 ^ Suc k \<le> n \<Longrightarrow> n \<le> length sh \<Longrightarrow>
         reduce_loop sched (2 ^ k) sh ! 0 = (\<Sum>i < 2 ^ Suc k. sh ! i)"
proof (induction k arbitrary: sh)
  case 0
  have d: "distinct (sched 1)" and s: "set (sched 1) = {..<n}"
    using assms by (simp_all add: valid_schedule_def)
  have "reduce_loop sched 1 sh = fold (thread_step 1) (sched 1) sh"
    by (simp add: reduce_loop.simps [of sched "Suc 0"] reduce_loop.simps [of sched 0])
  moreover have "(\<Sum>i < 1. fold (thread_step 1) (sched 1) sh ! i) = (\<Sum>i < 2 * 1. sh ! i)"
    using phase_sum [OF d s, of 1 sh] 0 by simp
  ultimately show ?case by simp
next
  case (Suc k)
  let ?s = "2 ^ Suc k :: nat"
  let ?sh = "fold (thread_step ?s) (sched ?s) sh"
  have d: "distinct (sched ?s)" and s: "set (sched ?s) = {..<n}"
    using assms by (simp_all add: valid_schedule_def)
  have step: "reduce_loop sched ?s sh = reduce_loop sched (2 ^ k) ?sh"
    by (subst reduce_loop.simps) simp
  have "reduce_loop sched (2 ^ k) ?sh ! 0 = (\<Sum>i < 2 ^ Suc k. ?sh ! i)"
    using Suc.IH [of ?sh] Suc.prems by simp
  also have "\<dots> = (\<Sum>i < 2 * ?s. sh ! i)"
    using phase_sum [OF d s, of ?s sh] Suc.prems by simp
  finally show ?case using step by simp
qed

lemma block_reduce_sum:
  assumes "length h = 2 ^ k" "valid_schedule (length h) sched"
  shows "block_reduce sched (length h) h = sum_list h"
proof (cases k)
  case 0
  with assms(1) have "length h = 1" by simp
  then obtain x where "h = [x]" by (cases h) auto
  then show ?thesis by (simp add: block_reduce_def reduce_loop.simps)
next
  case (Suc k')
  with assms(1) have half: "length h div 2 = 2 ^ k'" by simp
  have "reduce_loop sched (2 ^ k') h ! 0 = (\<Sum>i < 2 ^ Suc k'. h ! i)"
    using reduce_loop_pow2 [OF assms(2), of k' h] assms(1) Suc by simp
  also have "\<dots> = sum_list h"
    using assms(1) Suc by (simp add: sum_list_sum_nth lessThan_atLeast0)
  finally show ?thesis by (simp add: block_reduce_def half)
qed

lemma unat_sum_list_le: "unat (sum_list (h :: u64 list)) \<le> sum_list (map unat h)"
proof (induction h)
  case Nil
  show ?case by simp
next
  case (Cons x xs)
  have "unat (x + sum_list xs) \<le> unat x + unat (sum_list xs)"
    by (simp add: unat_word_ariths)
  with Cons show ?case by simp
qed

lemma unat_sum_list_exact:
  "sum_list (map unat h) < 2 ^ 64 \<Longrightarrow> unat (sum_list (h :: u64 list)) = sum_list (map unat h)"
proof (induction h)
  case Nil
  show ?case by simp
next
  case (Cons x xs)
  then have IH: "unat (sum_list xs) = sum_list (map unat xs)" by simp
  have "unat x + unat (sum_list xs) < 2 ^ LENGTH(64)"
    using Cons.prems IH by simp
  then have "unat (x + sum_list xs) = unat x + unat (sum_list xs)"
    by (simp add: unat_add_lem [THEN iffD1])
  with IH show ?case by simp
qed

lemma sum_mod4_256: "sum_list (map (\<lambda>i. of_nat (i mod 4)) [0..<256]) = (384 :: u64)"
  by code_simp

text \<open>
  C1. For local counts \<open>h\<close> of a block whose size is a power of two, and for every order
  in which the threads run each step between two barriers, the halving reduction (step
  size from half the block down to 1, thread \<open>tid < s\<close> adding slot \<open>tid + s\<close> into
  slot \<open>tid\<close>) leaves the sum of \<open>h\<close> in slot 0. The sum is the 64-bit sum of the
  scratch; it is the sum of the counts as numbers whenever that sum fits 64 bits. For
  256 workers with \<open>h\<^sub>i = i mod 4\<close> the partial sum is 384.
\<close>

theorem tree_reduction_sums_block:
  assumes "length h = 2 ^ k" and "valid_schedule (length h) sched"
  shows "block_reduce sched (length h) h = sum_list h
       \<and> (sum_list (map unat h) < 2 ^ 64 \<longrightarrow>
            unat (block_reduce sched (length h) h) = sum_list (map unat h))
       \<and> (h = map (\<lambda>i. of_nat (i mod 4)) [0..<256] \<longrightarrow>
            block_reduce sched (length h) h = 384)"
proof -
  have eq: "block_reduce sched (length h) h = sum_list h"
    using assms by (rule block_reduce_sum)
  moreover have "sum_list (map unat h) < 2 ^ 64 \<Longrightarrow>
      unat (block_reduce sched (length h) h) = sum_list (map unat h)"
    using eq unat_sum_list_exact [of h] by simp
  moreover have "h = map (\<lambda>i. of_nat (i mod 4)) [0..<256] \<Longrightarrow>
      block_reduce sched (length h) h = 384"
    using eq sum_mod4_256 by simp
  ultimately show ?thesis by blast
qed

theorem tree_reduction_sums_block_witness:
  "block_reduce (\<lambda>s. rev [0..<256]) 256 (map (\<lambda>i. of_nat (i mod 4)) [0..<256]) = 384
   \<and> unat (block_reduce (\<lambda>s. rev [0..<256]) 256 (map (\<lambda>i. of_nat (i mod 4)) [0..<256])) = 384"
proof -
  let ?h = "map (\<lambda>i. of_nat (i mod 4)) [0..<256] :: u64 list"
  have len: "length ?h = 2 ^ 8" by simp
  have sched: "valid_schedule (length ?h) (\<lambda>s. rev [0..<256])"
    by (simp add: valid_schedule_def lessThan_atLeast0)
  have "block_reduce (\<lambda>s. rev [0..<256]) (length ?h) ?h = 384"
    using tree_reduction_sums_block [OF len sched] by blast
  then have "block_reduce (\<lambda>s. rev [0..<256]) 256 ?h = 384"
    by simp
  then show ?thesis by simp
qed

section \<open>The stores to the block results\<close>

lemma length_block_shared_counts [simp]:
  "length (block_shared_counts ci u seed spt bd b) = bd"
  by (simp add: block_shared_counts_def)

lemma map_filter_result_write_tail:
  "List.map_filter (\<lambda>tid. result_write tid b sh) [Suc 0..<n] = []"
  by (simp add: List.map_filter_def result_write_def filter_empty_conv)

lemma block_writes_single:
  assumes "0 < bd"
  shows "block_writes ci u seed spt sched bd b =
     [\<lparr>writer_block = b, writer_tid = 0, slot = b,
       written = block_reduce (sched b) bd (block_shared_counts ci u seed spt bd b)\<rparr>]"
proof -
  let ?sh = "reduce_loop (sched b) (bd div 2) (block_shared_counts ci u seed spt bd b)"
  have upt: "[0..<bd] = 0 # [Suc 0..<bd]" using assms by (simp add: upt_conv_Cons)
  have "block_writes ci u seed spt sched bd b =
      List.map_filter (\<lambda>tid. result_write tid b ?sh) (0 # [Suc 0..<bd])"
    unfolding block_writes_def Let_def upt [symmetric] ..
  also have "\<dots> = (case result_write 0 b ?sh of None \<Rightarrow> [] | Some w \<Rightarrow> [w])"
    by (simp add: List.map_filter_simps map_filter_result_write_tail split: option.splits)
  finally show ?thesis
    by (simp add: result_write_def block_reduce_def)
qed

lemma estimate_pi_kernel_events:
  assumes "0 < bd"
  shows "estimate_pi_kernel ci u sched g bd seed spt =
     map (\<lambda>b. \<lparr>writer_block = b, writer_tid = 0, slot = b,
       written = block_reduce (sched b) bd (block_shared_counts ci u seed spt bd b)\<rparr>) [0..<g]"
  by (induction g) (simp_all add: estimate_pi_kernel_def block_writes_single [OF assms])

lemma filter_eq_upt: "filter (\<lambda>b. b = j) [0..<g] = (if j < g then [j] else [])"
  by (induction g) auto

lemma kernel_writes_to_slot:
  assumes "0 < blockDim"
  shows "filter (\<lambda>w. slot w = j)
           (estimate_pi_kernel ci u sched gridDim blockDim seed spt) =
         (if j < gridDim
          then [\<lparr>writer_block = j, writer_tid = 0, slot = j,
                  written = block_reduce (sched j) blockDim
                              (block_shared_counts ci u seed spt blockDim j)\<rparr>]
          else [])"
  by (simp add: estimate_pi_kernel_events [OF assms] filter_map comp_def filter_eq_upt)

lemma apply_writes_events:
  "length mem = g \<Longrightarrow> 
   apply_writes (map (\<lambda>b. \<lparr>writer_block = b, writer_tid = 0, slot = b, written = f b\<rparr>) [0..<k]) mem
     = map (\<lambda>b. if b < k then f b else mem ! b) [0..<g]"
proof (induction k)
  case 0
  then have "map ((!) mem) [0..<g] = mem" using map_nth [of mem] by simp
  then show ?case by (simp add: apply_writes_def)
next
  case (Suc k)
  have "apply_writes (map (\<lambda>b. \<lparr>writer_block = b, writer_tid = 0, slot = b, written = f b\<rparr>) [0..<Suc k]) mem
     = (apply_writes (map (\<lambda>b. \<lparr>writer_block = b, writer_tid = 0, slot = b, written = f b\<rparr>) [0..<k]) mem)[k := f k]"
    by (simp add: apply_writes_def)
  also have "\<dots> = (map (\<lambda>b. if b < k then f b else mem ! b) [0..<g])[k := f k]"
    using Suc by simp
  also have "\<dots> = map (\<lambda>b. if b < Suc k then f b else mem ! b) [0..<g]"
    by (rule nth_equalityI) (auto simp: nth_list_update less_Suc_eq)
  finally show ?case .
qed

lemma alternating_pair_on_circle:
  "int (n mod 2) * int (n mod 2) + int (Suc n mod 2) * int (Suc n mod 2) = 1"
proof (cases "even n")
  case True
  then have "n mod 2 = 0" "Suc n mod 2 = 1" by (simp_all add: mod_Suc)
  then show ?thesis by simp
next
  case False
  then have "n mod 2 = 1" "Suc n mod 2 = 0" by (simp_all add: mod_Suc odd_iff_mod_2_eq_one)
  then show ?thesis by simp
qed

lemma alternating_count_one:
  "thread_local_count ci (\<lambda>st. (int (st mod 2), Suc st)) seed 1 bd b tid = 1"
  by (simp add: thread_local_count_def sample_loop.simps [of _ 1 0] sample_loop.simps [of _ 1 1]
      alternating_pair_on_circle)

lemma alternating_block_sum:
  "sum_list (block_shared_counts ci (\<lambda>st. (int (st mod 2), Suc st)) seed 1 256 b) = 256"
proof -
  have "block_shared_counts ci (\<lambda>st. (int (st mod 2), Suc st)) seed 1 256 b =
      map (\<lambda>tid. 1) [0..<256]"
    unfolding block_shared_counts_def by (rule map_cong) (simp_all add: alternating_count_one)
  then show ?thesis by (simp add: sum_list_triv)
qed

text \<open>
  C6. In a launch with at least one thread per block, the stores to slot \<open>j\<close> of
  \<^verbatim>\<open>block_results\<close> are, for every block \<open>j\<close> of the grid, exactly one: it is made by
  thread 0 of block \<open>j\<close>, and the value stored is slot 0 of the block's scratch after
  the whole reduction loop. No other thread of any block stores to it, and no slot
  outside the grid is written.
\<close>

theorem block_result_written_once:
  assumes "0 < blockDim"
  shows "filter (\<lambda>w. slot w = j)
           (estimate_pi_kernel curand_init curand_uniform sched gridDim blockDim seed N) =
         (if j < gridDim
          then [\<lparr>writer_block = j, writer_tid = 0, slot = j,
                  written = block_reduce (sched j) blockDim
                    (block_shared_counts curand_init curand_uniform seed N blockDim j)\<rparr>]
          else [])"
  using assms by (rule kernel_writes_to_slot)

theorem block_result_written_once_witness:
  "filter (\<lambda>w. slot w = 3)
     (estimate_pi_kernel unat (\<lambda>st. (int (st mod 2), Suc st)) (\<lambda>b s. rev [0..<256])
        768 256 0 1) =
   [\<lparr>writer_block = 3, writer_tid = 0, slot = 3, written = 256\<rparr>]"
proof -
  let ?h = "block_shared_counts unat (\<lambda>st. (int (st mod 2), Suc st)) 0 1 256 3"
  have "length ?h = 2 ^ 8" by simp
  moreover have "valid_schedule (length ?h) (\<lambda>s. rev [0..<256])"
    by (simp add: valid_schedule_def lessThan_atLeast0)
  ultimately have "block_reduce (\<lambda>s. rev [0..<256]) (length ?h) ?h = sum_list ?h"
    by (rule block_reduce_sum)
  then have "block_reduce (\<lambda>s. rev [0..<256]) 256 ?h = 256"
    by (simp add: alternating_block_sum)
  then show ?thesis
    using block_result_written_once [of 256 3 unat "\<lambda>st. (int (st mod 2), Suc st)"
        "\<lambda>b s. rev [0..<256]" 768 0 1]
    by simp
qed

section \<open>The sample plan\<close>

lemma plan_unat:
  assumes "W \<noteq> 0"
  shows "unat (actual_total_samples_of T W) = unat (samples_per_thread_of T W) * unat W"
proof -
  let ?X = "T + W - 1"
  have "unat (samples_per_thread_of T W) * unat W = (unat ?X div unat W) * unat W"
    by (simp add: samples_per_thread_of_def unat_div)
  also have "\<dots> \<le> unat ?X" by simp
  also have "\<dots> < 2 ^ LENGTH(64)" by (rule unsigned_less)
  finally show ?thesis
    by (simp add: actual_total_samples_of_def unat_mult_lem [THEN iffD1])
qed

lemma plan_ceiling:
  assumes "W \<noteq> 0" "unat T + unat W - 1 < 2 ^ 64"
  shows "unat (samples_per_thread_of T W) = (unat T + unat W - 1) div unat W"
    and "unat (actual_total_samples_of T W) = ((unat T + unat W - 1) div unat W) * unat W"
    and "T \<le> actual_total_samples_of T W"
proof -
  have W: "0 < unat W" using assms(1) by (simp add: unat_gt_0)
  have W1: "unat (W - 1) = unat W - 1"
    using W by (simp add: unat_sub word_le_nat_alt)
  have "unat T + unat (W - 1) < 2 ^ LENGTH(64)"
    using assms(2) W W1 by simp
  then have "unat (T + (W - 1)) = unat T + unat (W - 1)"
    by (simp only: unat_add_lem [THEN iffD1])
  also have "\<dots> = unat T + unat W - 1"
    using W W1 by simp
  finally have "unat (T + W - 1) = unat T + unat W - 1"
    by (simp add: add_diff_eq)
  then show spt: "unat (samples_per_thread_of T W) = (unat T + unat W - 1) div unat W"
    by (simp add: samples_per_thread_of_def unat_div)
  show act: "unat (actual_total_samples_of T W) = ((unat T + unat W - 1) div unat W) * unat W"
    using plan_unat [OF assms(1), of T] spt by simp
  have "unat T \<le> ((unat T + unat W - 1) div unat W) * unat W"
  proof -
    have "unat T + unat W - 1 = ((unat T + unat W - 1) div unat W) * unat W + (unat T + unat W - 1) mod unat W"
      by simp
    moreover have "(unat T + unat W - 1) mod unat W < unat W"
      using W by simp
    ultimately show ?thesis using W by linarith
  qed
  then show "T \<le> actual_total_samples_of T W"
    using act by (simp add: word_le_nat_alt)
qed

lemma ceiling_div_nat:
  assumes "0 < b"
  shows "nat \<lceil>real a / real b\<rceil> = (a + b - 1) div b"
proof -
  let ?q = "(a + b - 1) div b"
  have "a + b - 1 = ?q * b + (a + b - 1) mod b" by simp
  moreover have "(a + b - 1) mod b < b" using assms by simp
  ultimately have up: "a \<le> ?q * b" and low: "?q * b < a + b" using assms by linarith+
  have "real a / real b \<le> real ?q"
    using up assms by (simp add: pos_divide_le_eq flip: of_nat_mult)
  moreover have "real ?q - 1 < real a / real b"
  proof -
    have "real (?q * b) < real (a + b)" using low by (simp only: of_nat_less_iff)
    then have "(real ?q - 1) * real b < real a" by (simp add: algebra_simps)
    then show ?thesis using assms by (simp add: pos_less_divide_eq)
  qed
  ultimately have "\<lceil>real a / real b\<rceil> = int ?q"
    by (intro ceiling_unique) simp_all
  then show ?thesis by simp
qed

text \<open>
  As long as \<open>T + W - 1\<close> fits 64 bits, the plan is the ceiling division that line 90
  announces, nothing wraps and the actual total is at least the request.
\<close>

lemma plan_is_ceiling_division:
  assumes "W \<noteq> 0" and "unat T + unat W - 1 < 2 ^ 64"
  shows "unat (samples_per_thread_of T W) = nat \<lceil>real (unat T) / real (unat W)\<rceil>
       \<and> unat (actual_total_samples_of T W) = nat \<lceil>real (unat T) / real (unat W)\<rceil> * unat W
       \<and> T \<le> actual_total_samples_of T W"
proof -
  have "0 < unat W" using assms(1) by (simp add: unat_gt_0)
  then have c: "nat \<lceil>real (unat T) / real (unat W)\<rceil> = (unat T + unat W - 1) div unat W"
    by (rule ceiling_div_nat)
  show ?thesis
    unfolding c using plan_ceiling [OF assms] by simp
qed

text \<open>The figures of the README: a request of \<open>10\<^sup>1\<^sup>2\<close> samples on 768 blocks.\<close>

lemma plan_of_the_readme:
  "unat (samples_per_thread_of 1000000000000 (total_threads_of 768)) = 5086264
   \<and> unat (actual_total_samples_of 1000000000000 (total_threads_of 768)) = 1000000192512
   \<and> (1000000000000 :: u64) \<le> actual_total_samples_of 1000000000000 (total_threads_of 768)"
proof -
  have W: "total_threads_of 768 = 196608"
    by (simp add: total_threads_of_def THREADS_PER_BLOCK_def)
  have a: "(196608 :: u64) \<noteq> 0" by simp
  have b: "unat (1000000000000 :: u64) + unat (196608 :: u64) - 1 < 2 ^ 64" by simp
  have c: "nat \<lceil>real (unat (1000000000000 :: u64)) / real (unat (196608 :: u64))\<rceil> = 5086264"
    by (simp add: ceiling_div_nat)
  show ?thesis
    using plan_is_ceiling_division [OF a b] unfolding W c by simp
qed

text \<open>
  C2. The plan is not a ceiling division for the largest requests. With the 196608
  threads of the 768 blocks of the README's device, the request
  \<open>2\<^sup>6\<^sup>4 - 2\<^sup>1\<^sup>6 = 93824992236885 * 196608\<close> is a multiple of the number of
  threads, so the plan of the specification exists in 64 bits and equals the request.
  \<^verbatim>\<open>std::stoull\<close> accepts that request, the sum of line 91 wraps to 131071, the plan
  gives no sample to any thread and the actual total is 0, below the request, although
  line 90 announces at least \<^verbatim>\<open>total_samples\<close> samples.
\<close>

theorem plan_wraps_for_largest_multiple:
  "total_threads_of 768 = 196608
   \<and> 93824992236885 * unat (total_threads_of 768) = unat (18446744073709486080 :: u64)
   \<and> samples_per_thread_of 18446744073709486080 (total_threads_of 768) = 0
   \<and> actual_total_samples_of 18446744073709486080 (total_threads_of 768) = 0
   \<and> actual_total_samples_of 18446744073709486080 (total_threads_of 768)
       < 18446744073709486080"
  by (simp add: samples_per_thread_of_def actual_total_samples_of_def total_threads_of_def
      THREADS_PER_BLOCK_def)

section \<open>Whole runs\<close>

lemma total_threads_unat:
  assumes "0 \<le> nb" "nb < 2 ^ 31"
  shows "unat (total_threads_of nb) = nat nb * THREADS_PER_BLOCK"
proof -
  have small: "nat nb < 2 ^ 31" using assms by simp
  then have a: "unat (of_nat (nat nb) :: u64) = nat nb"
    by (simp add: unat_of_nat)
  have "nat nb * 256 < 2 ^ 31 * 256" using small by simp
  then have "unat (of_nat (nat nb) :: u64) * unat (256 :: u64) < 2 ^ LENGTH(64)"
    using a by simp
  then have "unat (of_nat (nat nb) * 256 :: u64) = nat nb * 256"
    using a by (simp only: unat_mult_lem [THEN iffD1]) simp
  moreover have "(of_int nb :: u64) = of_nat (nat nb)" using assms(1) by simp
  ultimately show ?thesis
    by (simp add: total_threads_of_def THREADS_PER_BLOCK_def)
qed

lemma foldl_add_sum_list:
  "foldl (\<lambda>a i. a + f i) z xs = z + sum_list (map f xs)"
  for z :: u64
  by (induction xs arbitrary: z) (simp_all add: add.assoc)

lemma sum_block_results_sum:
  "sum_block_results g h = sum_list (map (\<lambda>i. h ! i) [0..<g])"
  by (simp add: sum_block_results_def foldl_add_sum_list)

lemma launch_blocks:
  assumes "\<forall>b. valid_schedule THREADS_PER_BLOCK (schedule env b)"
  shows "launch env p =
     map (\<lambda>b. sum_list (block_shared_counts (rng_init env) (rng_uniform env) (time_now env)
                  (samples_per_thread p) THREADS_PER_BLOCK b)) [0..<nat (num_blocks p)]"
proof -
  let ?g = "nat (num_blocks p)"
  let ?h = "\<lambda>b. block_shared_counts (rng_init env) (rng_uniform env) (time_now env)
                  (samples_per_thread p) THREADS_PER_BLOCK b"
  have pos: "0 < THREADS_PER_BLOCK" by (simp add: THREADS_PER_BLOCK_def)
  have red: "block_reduce (schedule env b) THREADS_PER_BLOCK (?h b) = sum_list (?h b)" for b
  proof -
    have "length (?h b) = 2 ^ 8" by (simp add: THREADS_PER_BLOCK_def)
    moreover have "valid_schedule (length (?h b)) (schedule env b)" using assms by simp
    ultimately have "block_reduce (schedule env b) (length (?h b)) (?h b) = sum_list (?h b)"
      by (rule block_reduce_sum)
    then show ?thesis by simp
  qed
  have "launch env p =
      map (\<lambda>b. if b < ?g then block_reduce (schedule env b) THREADS_PER_BLOCK (?h b)
                else map (uninitialised env) [0..<?g] ! b) [0..<?g]"
    unfolding launch_def estimate_pi_kernel_events [OF pos]
    by (rule apply_writes_events) simp
  also have "\<dots> = map (\<lambda>b. sum_list (?h b)) [0..<?g]"
    by (simp add: red)
  finally show ?thesis .
qed

lemma sum_list_map_bound:
  "(\<And>x. x \<in> set xs \<Longrightarrow> f x \<le> (c :: nat)) \<Longrightarrow> sum_list (map f xs) \<le> length xs * c"
  by (induction xs) (simp_all add: add_mono)

lemma block_sum_bound:
  "sum_list (map unat (block_shared_counts ci u seed spt bd b)) \<le> bd * unat spt"
  using sum_list_map_bound [of "[0..<bd]" "\<lambda>tid. unat (thread_local_count ci u seed spt bd b tid)" "unat spt"]
  by (simp add: block_shared_counts_def comp_def thread_local_count_le)

lemma hits_bound:
  assumes "\<forall>b. valid_schedule THREADS_PER_BLOCK (schedule env b)"
  shows "unat (sum_block_results (nat (num_blocks p)) (launch env p))
           \<le> nat (num_blocks p) * (THREADS_PER_BLOCK * unat (samples_per_thread p))"
proof -
  let ?g = "nat (num_blocks p)"
  let ?h = "\<lambda>b. block_shared_counts (rng_init env) (rng_uniform env) (time_now env)
                  (samples_per_thread p) THREADS_PER_BLOCK b"
  have "map ((!) (map (\<lambda>b. sum_list (?h b)) [0..<?g])) [0..<?g]
      = map (\<lambda>b. sum_list (?h b)) [0..<?g]"
    using map_nth [of "map (\<lambda>b. sum_list (?h b)) [0..<?g]"] by simp
  then have "sum_block_results ?g (launch env p) = sum_list (map (\<lambda>b. sum_list (?h b)) [0..<?g])"
    by (simp only: sum_block_results_sum launch_blocks [OF assms])
  then have "unat (sum_block_results ?g (launch env p))
      \<le> sum_list (map unat (map (\<lambda>b. sum_list (?h b)) [0..<?g]))"
    using unat_sum_list_le [of "map (\<lambda>b. sum_list (?h b)) [0..<?g]"] by simp
  also have "\<dots> = sum_list (map (\<lambda>b. unat (sum_list (?h b))) [0..<?g])"
    by (simp add: comp_def)
  also have "\<dots> \<le> length [0..<?g] * (THREADS_PER_BLOCK * unat (samples_per_thread p))"
  proof (rule sum_list_map_bound)
    fix b
    have "unat (sum_list (?h b)) \<le> sum_list (map unat (?h b))" by (rule unat_sum_list_le)
    also have "\<dots> \<le> THREADS_PER_BLOCK * unat (samples_per_thread p)" by (rule block_sum_bound)
    finally show "unat (sum_list (?h b)) \<le> THREADS_PER_BLOCK * unat (samples_per_thread p)" .
  qed
  finally show ?thesis by simp
qed

lemma simulate_results:
  assumes "printed_results (simulate env T) = Some r"
  shows "0 \<le> multiProcessorCount env * 32 \<and> multiProcessorCount env * 32 < 2 ^ 31
       \<and> total_threads_of (multiProcessorCount env * 32) \<noteq> 0
       \<and> printed_plan (simulate env T) = Some (make_plan (multiProcessorCount env * 32) T)
       \<and> kernel_dispatched (simulate env T)
       \<and> r = \<lparr>total_in_circle =
                 sum_block_results (nat (multiProcessorCount env * 32))
                   (launch env (make_plan (multiProcessorCount env * 32) T)),
               pi_estimate = pi_estimate_of
                 (sum_block_results (nat (multiProcessorCount env * 32))
                   (launch env (make_plan (multiProcessorCount env * 32) T)))
                 (actual_total_samples (make_plan (multiProcessorCount env * 32) T))\<rparr>"
  using assms
  by (auto simp: simulate_def Let_def cuda_exit_def simp del: find.simps
      split: option.splits if_splits)

lemma simulate_ok:
  assumes "\<forall>c. \<not> cuda_fails env c" "0 < multiProcessorCount env" "multiProcessorCount env < 2 ^ 26"
  shows "simulate env T =
      \<lparr>outcome = Exit_status 0, diagnostics = [], kernel_dispatched = True,
       printed_plan = Some (make_plan (multiProcessorCount env * 32) T),
       printed_results = Some \<lparr>total_in_circle =
                 sum_block_results (nat (multiProcessorCount env * 32))
                   (launch env (make_plan (multiProcessorCount env * 32) T)),
               pi_estimate = pi_estimate_of
                 (sum_block_results (nat (multiProcessorCount env * 32))
                   (launch env (make_plan (multiProcessorCount env * 32) T)))
                 (actual_total_samples (make_plan (multiProcessorCount env * 32) T))\<rparr>\<rparr>"
proof -
  let ?nb = "multiProcessorCount env * 32"
  have nb: "0 \<le> ?nb" "?nb < 2 ^ 31" "0 < ?nb" using assms(2,3) by simp_all
  have "unat (total_threads_of ?nb) = nat ?nb * THREADS_PER_BLOCK"
    using nb by (intro total_threads_unat) simp_all
  then have "unat (total_threads_of ?nb) \<noteq> 0"
    using nb(3) by (simp add: THREADS_PER_BLOCK_def)
  then have W: "total_threads_of ?nb \<noteq> 0" by auto
  have nofail: "find (cuda_fails env) cs = None" for cs
    using assms(1) by (simp add: find_None_iff)
  show ?thesis
    using nb W by (simp add: simulate_def Let_def nofail del: find.simps)
qed

lemma main_parsed: "parse_total_samples argv = Inr T \<Longrightarrow> main env argv = simulate env T"
  by (simp add: main_def)

lemma main_results:
  assumes "printed_results (main env argv) = Some r"
  obtains T where "parse_total_samples argv = Inr T" "main env argv = simulate env T"
proof (cases "parse_total_samples argv")
  case (Inl e)
  with assms show ?thesis by (cases e) (simp_all add: main_def)
next
  case (Inr T)
  then show ?thesis using that main_parsed by blast
qed

lemma run_hits_le_actual:
  assumes sched: "\<forall>b. valid_schedule THREADS_PER_BLOCK (schedule env b)"
      and p: "printed_plan (main env argv) = Some p"
      and r: "printed_results (main env argv) = Some r"
  shows "unat (total_in_circle r) \<le> unat (actual_total_samples p)"
    and "unat (actual_total_samples p) =
           unat (samples_per_thread p) * (nat (num_blocks p) * THREADS_PER_BLOCK)"
proof -
  obtain T where T: "main env argv = simulate env T"
    using r by (rule main_results)
  let ?nb = "multiProcessorCount env * 32"
  have facts: "0 \<le> ?nb" "?nb < 2 ^ 31" "total_threads_of ?nb \<noteq> 0"
      "printed_plan (simulate env T) = Some (make_plan ?nb T)"
      "r = \<lparr>total_in_circle = sum_block_results (nat ?nb) (launch env (make_plan ?nb T)),
            pi_estimate = pi_estimate_of
              (sum_block_results (nat ?nb) (launch env (make_plan ?nb T)))
              (actual_total_samples (make_plan ?nb T))\<rparr>"
    using simulate_results [of env T r] r T by simp_all
  have pp: "p = make_plan ?nb T" using p T facts(4) by simp
  have W: "unat (total_threads_of ?nb) = nat ?nb * THREADS_PER_BLOCK"
    using facts(1,2) by (rule total_threads_unat)
  have act: "unat (actual_total_samples p) = unat (samples_per_thread p) * (nat ?nb * THREADS_PER_BLOCK)"
    using plan_unat [OF facts(3), of T] W by (simp add: pp make_plan_def)
  then show "unat (actual_total_samples p) =
           unat (samples_per_thread p) * (nat (num_blocks p) * THREADS_PER_BLOCK)"
    by (simp add: pp make_plan_def)
  have "unat (total_in_circle r) \<le> nat (num_blocks p) * (THREADS_PER_BLOCK * unat (samples_per_thread p))"
    using hits_bound [OF sched, of p] facts(5) by (simp add: pp make_plan_def)
  also have "\<dots> = unat (actual_total_samples p)"
    using act by (simp add: pp make_plan_def mult.commute mult.left_commute)
  finally show "unat (total_in_circle r) \<le> unat (actual_total_samples p)" .
qed

lemma zero_actual_results:
  assumes "\<forall>b. valid_schedule THREADS_PER_BLOCK (schedule env b)"
      and "printed_plan (main env argv) = Some p"
      and "printed_results (main env argv) = Some r"
      and "actual_total_samples p = 0"
  shows "total_in_circle r = 0 \<and> pi_estimate r = Pi_not_a_number"
proof -
  have "unat (total_in_circle r) \<le> unat (actual_total_samples p)"
    using assms(1-3) by (rule run_hits_le_actual)
  then have hits: "total_in_circle r = 0"
    using assms(4) by (simp add: unat_eq_zero)
  obtain T where T: "main env argv = simulate env T"
    using assms(3) by (rule main_results)
  let ?nb = "multiProcessorCount env * 32"
  have "printed_plan (simulate env T) = Some (make_plan ?nb T)"
      "r = \<lparr>total_in_circle = sum_block_results (nat ?nb) (launch env (make_plan ?nb T)),
            pi_estimate = pi_estimate_of
              (sum_block_results (nat ?nb) (launch env (make_plan ?nb T)))
              (actual_total_samples (make_plan ?nb T))\<rparr>"
    using simulate_results [of env T r] assms(3) T by simp_all
  then have "pi_estimate r = pi_estimate_of (total_in_circle r) (actual_total_samples p)"
    using assms(2) T by simp
  then show ?thesis
    using hits assms(4) by (simp add: pi_estimate_of_def)
qed

text \<open>The concrete environment: its schedule is valid and none of its calls fails.\<close>

lemma readme_schedule: "\<forall>b. valid_schedule THREADS_PER_BLOCK (schedule readme_env b)"
  by (simp add: readme_env_def valid_schedule_def THREADS_PER_BLOCK_def lessThan_atLeast0)

lemma readme_simulate:
  "simulate readme_env T =
      \<lparr>outcome = Exit_status 0, diagnostics = [], kernel_dispatched = True,
       printed_plan = Some (make_plan 768 T),
       printed_results = Some \<lparr>total_in_circle =
                 sum_block_results 768 (launch readme_env (make_plan 768 T)),
               pi_estimate = pi_estimate_of
                 (sum_block_results 768 (launch readme_env (make_plan 768 T)))
                 (actual_total_samples (make_plan 768 T))\<rparr>\<rparr>"
proof -
  have "\<forall>c. \<not> cuda_fails readme_env c" "0 < multiProcessorCount readme_env"
    "multiProcessorCount readme_env < 2 ^ 26"
    by (simp_all add: readme_env_def)
  then have "simulate readme_env T =
      \<lparr>outcome = Exit_status 0, diagnostics = [], kernel_dispatched = True,
       printed_plan = Some (make_plan (multiProcessorCount readme_env * 32) T),
       printed_results = Some \<lparr>total_in_circle =
                 sum_block_results (nat (multiProcessorCount readme_env * 32))
                   (launch readme_env (make_plan (multiProcessorCount readme_env * 32) T)),
               pi_estimate = pi_estimate_of
                 (sum_block_results (nat (multiProcessorCount readme_env * 32))
                   (launch readme_env (make_plan (multiProcessorCount readme_env * 32) T)))
                 (actual_total_samples (make_plan (multiProcessorCount readme_env * 32) T))\<rparr>\<rparr>"
    by (rule simulate_ok)
  moreover have "multiProcessorCount readme_env * 32 = 768" by (simp add: readme_env_def)
  ultimately show ?thesis by simp
qed

lemma parse_examples:
  "parse_total_samples [''pi_monte_carlo'', ''0''] = Inr 0"
  "parse_total_samples [''pi_monte_carlo'', ''1''] = Inr 1"
  "parse_total_samples [''pi_monte_carlo'', ''1000''] = Inr 1000"
  by (simp_all add: parse_total_samples_def stoull_def isspace_def isdigit_def
      decimal_value_def digit_val_def)

lemma make_plan_examples:
  "make_plan 768 0 = \<lparr>num_blocks = 768, total_threads = 196608, samples_per_thread = 0,
                       total_samples = 0, actual_total_samples = 0\<rparr>"
  "make_plan 768 1 = \<lparr>num_blocks = 768, total_threads = 196608, samples_per_thread = 1,
                       total_samples = 1, actual_total_samples = 196608\<rparr>"
  "make_plan 768 1000 = \<lparr>num_blocks = 768, total_threads = 196608, samples_per_thread = 1,
                       total_samples = 1000, actual_total_samples = 196608\<rparr>"
  by (simp_all add: make_plan_def total_threads_of_def samples_per_thread_of_def
      actual_total_samples_of_def THREADS_PER_BLOCK_def)

text \<open>
  C3. In every run that prints its results, and for every order of the threads inside
  the reduction steps, \<open>0 \<le> total_hits \<le> actual_total_samples\<close>: the local count of
  each worker is at most \<open>samples_per_thread\<close>, the actual total is
  \<open>samples_per_thread\<close> times the number of threads without wrapping, and the sum of
  the block results does not exceed it.
\<close>

theorem total_hits_within_actual_total:
  assumes "\<forall>b. valid_schedule THREADS_PER_BLOCK (schedule env b)"
      and "printed_plan (main env argv) = Some p"
      and "printed_results (main env argv) = Some r"
  shows "0 \<le> total_in_circle r
       \<and> unat (total_in_circle r) \<le> unat (actual_total_samples p)
       \<and> total_in_circle r \<le> actual_total_samples p
       \<and> (\<forall>b tid. thread_local_count (rng_init env) (rng_uniform env) (time_now env)
                     (samples_per_thread p) THREADS_PER_BLOCK b tid \<le> samples_per_thread p)
       \<and> unat (actual_total_samples p) =
           unat (samples_per_thread p) * (nat (num_blocks p) * THREADS_PER_BLOCK)"
  using run_hits_le_actual [OF assms]
  by (simp add: word_le_nat_alt thread_local_count_le)

theorem total_hits_within_actual_total_witness:
  "printed_plan (main readme_env [''pi_monte_carlo'', ''1000'']) =
     Some \<lparr>num_blocks = 768, total_threads = 196608, samples_per_thread = 1,
            total_samples = 1000, actual_total_samples = 196608\<rparr>
   \<and> unat (total_in_circle (the (printed_results (main readme_env [''pi_monte_carlo'', ''1000'']))))
       \<le> 196608"
proof -
  let ?run = "main readme_env [''pi_monte_carlo'', ''1000'']"
  have run: "?run = simulate readme_env 1000"
    by (rule main_parsed) (rule parse_examples)
  have p: "printed_plan ?run = Some \<lparr>num_blocks = 768, total_threads = 196608,
      samples_per_thread = 1, total_samples = 1000, actual_total_samples = 196608\<rparr>"
    by (simp add: run readme_simulate make_plan_examples)
  have r: "printed_results ?run = Some (the (printed_results ?run))"
    by (simp add: run readme_simulate)
  show ?thesis
    using total_hits_within_actual_total [OF readme_schedule p r] p by simp
qed

section \<open>Runs with no sample\<close>

text \<open>
  The request 0 on the README's device: the run returns 0 with no diagnostic, the
  actual total is 0, and the estimate printed is the NaN of the division \<open>0/0\<close> of
  line 135. No test guards the division and nothing reports the estimate as undefined.
\<close>

theorem zero_samples_divide_by_zero:
  "main readme_env [''pi_monte_carlo'', ''0''] =
     \<lparr>outcome = Exit_status 0, diagnostics = [], kernel_dispatched = True,
      printed_plan = Some \<lparr>num_blocks = 768, total_threads = 196608, samples_per_thread = 0,
                            total_samples = 0, actual_total_samples = 0\<rparr>,
      printed_results = Some \<lparr>total_in_circle = 0, pi_estimate = Pi_not_a_number\<rparr>\<rparr>"
proof -
  let ?run = "main readme_env [''pi_monte_carlo'', ''0'']"
  have run: "?run = simulate readme_env 0"
    by (rule main_parsed) (rule parse_examples)
  have p: "printed_plan ?run = Some (make_plan 768 0)"
    by (simp add: run readme_simulate)
  have r: "printed_results ?run = Some (the (printed_results ?run))"
    by (simp add: run readme_simulate)
  have "actual_total_samples (make_plan 768 0) = 0"
    by (simp add: make_plan_examples)
  with readme_schedule p r
  have z: "total_in_circle (the (printed_results ?run)) = 0 \<and>
      pi_estimate (the (printed_results ?run)) = Pi_not_a_number"
    by (rule zero_actual_results)
  have "the (printed_results ?run) = \<lparr>total_in_circle = 0, pi_estimate = Pi_not_a_number\<rparr>"
    using z by (cases "the (printed_results ?run)") simp
  then have "printed_results ?run = Some \<lparr>total_in_circle = 0, pi_estimate = Pi_not_a_number\<rparr>"
    using r by simp
  moreover have "outcome ?run = Exit_status 0" "diagnostics ?run = []" "kernel_dispatched ?run"
    by (simp_all add: run readme_simulate)
  ultimately show ?thesis
    using p by (cases ?run) (simp add: make_plan_examples)
qed

text \<open>
  C7, as the code has it. Whenever a run prints its results with an actual total of 0,
  the total of hits is 0 and the estimate is the value of the unguarded division
  \<open>4.0 * 0 / 0.0\<close>, an IEEE-754 NaN, printed like any other estimate.
\<close>

theorem zero_samples_estimate_is_nan:
  assumes "\<forall>b. valid_schedule THREADS_PER_BLOCK (schedule env b)"
      and "printed_plan (main env argv) = Some p"
      and "printed_results (main env argv) = Some r"
      and "actual_total_samples p = 0"
  shows "total_in_circle r = 0 \<and> pi_estimate r = Pi_not_a_number
       \<and> pi_estimate r = pi_estimate_of (total_in_circle r) (actual_total_samples p)"
  using zero_actual_results [OF assms] assms(4) by (simp add: pi_estimate_of_def)

theorem zero_samples_estimate_is_nan_witness:
  "total_in_circle (the (printed_results (main readme_env [''pi_monte_carlo'', ''0'']))) = 0
   \<and> pi_estimate (the (printed_results (main readme_env [''pi_monte_carlo'', ''0''])))
       = Pi_not_a_number"
proof -
  let ?run = "main readme_env [''pi_monte_carlo'', ''0'']"
  have run: "?run = simulate readme_env 0"
    by (rule main_parsed) (rule parse_examples)
  have p: "printed_plan ?run = Some (make_plan 768 0)"
    by (simp add: run readme_simulate)
  have r: "printed_results ?run = Some (the (printed_results ?run))"
    by (simp add: run readme_simulate)
  have a: "actual_total_samples (make_plan 768 0) = 0"
    by (simp add: make_plan_examples)
  show ?thesis
    using zero_samples_estimate_is_nan [OF readme_schedule p r a] by simp
qed

lemma samples_per_thread_zero_request:
  assumes "W \<noteq> 0"
  shows "samples_per_thread_of 0 W = 0"
proof -
  have "0 < unat W" using assms by (simp add: unat_gt_0)
  then have "unat (W - 1) < unat W"
    by (simp add: unat_sub word_le_nat_alt)
  then have "unat ((W - 1) div W) = 0"
    by (simp add: unat_div)
  then show ?thesis
    by (simp add: samples_per_thread_of_def unat_eq_zero)
qed

lemma samples_per_thread_zero_only_for_zero:
  assumes "W \<noteq> 0" "unat T + unat W - 1 < 2 ^ 64" "samples_per_thread_of T W = 0"
  shows "T = 0"
proof -
  have W: "0 < unat W" using assms(1) by (simp add: unat_gt_0)
  have "(unat T + unat W - 1) div unat W = 0"
    using plan_ceiling(1) [OF assms(1,2)] assms(3) by simp
  then have "unat T + unat W - 1 < unat W"
    using W by (simp add: div_eq_0_iff)
  then have "unat T = 0" using W by linarith
  then show ?thesis by (simp add: unat_eq_zero)
qed

lemma thread_local_count_zero:
  "thread_local_count ci u seed 0 bd b tid = 0"
  using thread_local_count_le [of ci u seed 0 bd b tid] by (simp add: unat_eq_zero)

text \<open>
  A request smaller than the number of threads does not give \<open>samples_per_thread = 0\<close>:
  for the request 1 on the README's device (196608 threads) the ceiling division gives
  every thread one sample.
\<close>

theorem one_sample_request_gives_each_thread_one:
  "(1 :: u64) < total_threads_of 768
   \<and> printed_plan (main readme_env [''pi_monte_carlo'', ''1'']) =
       Some \<lparr>num_blocks = 768, total_threads = 196608, samples_per_thread = 1,
              total_samples = 1, actual_total_samples = 196608\<rparr>"
proof -
  have "main readme_env [''pi_monte_carlo'', ''1''] = simulate readme_env 1"
    by (rule main_parsed) (rule parse_examples)
  then show ?thesis
    by (simp add: readme_simulate make_plan_examples total_threads_of_def THREADS_PER_BLOCK_def)
qed

text \<open>
  C8, as the code has it. \<open>samples_per_thread = 0\<close> arises for the request 0, and for
  no other request as long as \<open>T + W - 1\<close> fits 64 bits. A run in which it is 0, on a
  device with a positive number of multiprocessors and no failing call, returns exit
  status 0 with no diagnostic; every worker contributes a local count of 0 and the
  total of hits is 0.
\<close>

theorem zero_samples_per_thread_run:
  assumes sched: "\<forall>b. valid_schedule THREADS_PER_BLOCK (schedule env b)"
      and dev: "0 < multiProcessorCount env" "multiProcessorCount env < 2 ^ 26"
      and ok: "\<forall>c. \<not> cuda_fails env c"
      and parse: "parse_total_samples argv = Inr T"
      and zero: "samples_per_thread_of T (total_threads_of (multiProcessorCount env * 32)) = 0"
  shows "outcome (main env argv) = Exit_status 0
       \<and> diagnostics (main env argv) = []
       \<and> (\<exists>p r. printed_plan (main env argv) = Some p
                \<and> printed_results (main env argv) = Some r
                \<and> samples_per_thread p = 0 \<and> actual_total_samples p = 0
                \<and> total_in_circle r = 0)
       \<and> (\<forall>b tid. thread_local_count (rng_init env) (rng_uniform env) (time_now env) 0
                     THREADS_PER_BLOCK b tid = 0)
       \<and> (unat T + unat (total_threads_of (multiProcessorCount env * 32)) - 1 < 2 ^ 64
            \<longrightarrow> T = 0)
       \<and> samples_per_thread_of 0 (total_threads_of (multiProcessorCount env * 32)) = 0"
proof -
  let ?nb = "multiProcessorCount env * 32"
  let ?W = "total_threads_of ?nb"
  let ?p = "make_plan ?nb T"
  have run: "main env argv = simulate env T" using parse by (rule main_parsed)
  note sim = simulate_ok [OF ok dev, of T]
  have "unat ?W = nat ?nb * THREADS_PER_BLOCK"
    using dev by (intro total_threads_unat) simp_all
  then have "unat ?W \<noteq> 0" using dev(1) by (simp add: THREADS_PER_BLOCK_def)
  then have W: "?W \<noteq> 0" by auto
  have p: "printed_plan (main env argv) = Some ?p" by (simp add: run sim)
  have r: "printed_results (main env argv) = Some (the (printed_results (main env argv)))"
    by (simp add: run sim)
  have spt: "samples_per_thread ?p = 0" using zero by (simp add: make_plan_def)
  have act: "actual_total_samples ?p = 0"
    using zero by (simp add: make_plan_def actual_total_samples_of_def)
  have hits: "total_in_circle (the (printed_results (main env argv))) = 0"
    using zero_actual_results [OF sched p r act] by simp
  have "outcome (main env argv) = Exit_status 0" "diagnostics (main env argv) = []"
    by (simp_all add: run sim)
  moreover have "\<exists>p r. printed_plan (main env argv) = Some p
                \<and> printed_results (main env argv) = Some r
                \<and> samples_per_thread p = 0 \<and> actual_total_samples p = 0
                \<and> total_in_circle r = 0"
    using p r spt act hits by blast
  moreover have "unat T + unat ?W - 1 < 2 ^ 64 \<Longrightarrow> T = 0"
    using samples_per_thread_zero_only_for_zero [OF W _ zero] by simp
  moreover have "samples_per_thread_of 0 ?W = 0"
    using W by (rule samples_per_thread_zero_request)
  ultimately show ?thesis
    by (simp add: thread_local_count_zero)
qed

theorem zero_samples_per_thread_run_witness:
  "outcome (main readme_env [''pi_monte_carlo'', ''0'']) = Exit_status 0
   \<and> diagnostics (main readme_env [''pi_monte_carlo'', ''0'']) = []
   \<and> samples_per_thread_of 0 (total_threads_of 768) = 0"
proof -
  have dev: "0 < multiProcessorCount readme_env" "multiProcessorCount readme_env < 2 ^ 26"
    and ok: "\<forall>c. \<not> cuda_fails readme_env c"
    and nb: "multiProcessorCount readme_env * 32 = 768"
    by (simp_all add: readme_env_def)
  have zero: "samples_per_thread_of 0 (total_threads_of (multiProcessorCount readme_env * 32)) = 0"
    by (simp add: nb samples_per_thread_of_def total_threads_of_def THREADS_PER_BLOCK_def)
  show ?thesis
    using zero_samples_per_thread_run [OF readme_schedule dev ok parse_examples(1) zero] nb
    by simp
qed

section \<open>The command line\<close>

lemma isdigit_not_isspace: "isdigit c \<Longrightarrow> \<not> isspace c"
  by (auto simp: isdigit_def isspace_def)

lemma isdigit_not_sign: "isdigit c \<Longrightarrow> c \<noteq> CHR ''-'' \<and> c \<noteq> CHR ''+''"
  by (auto simp: isdigit_def)

lemma stoull_invalid_iff: "stoull arg = Inl Invalid_argument \<longleftrightarrow> no_leading_number arg"
proof -
  obtain negative rest where s: "strip_sign (dropWhile isspace arg) = (negative, rest)"
    by (cases "strip_sign (dropWhile isspace arg)")
  have "takeWhile isdigit rest = [] \<longleftrightarrow> no_leading_number arg"
    using s by (cases rest) (simp_all add: no_leading_number_def)
  then show ?thesis
    using s by (simp add: stoull_def Let_def)
qed

lemma stoull_digits_then_rest:
  assumes "decimal_numeral ds" and "rest = [] \<or> \<not> isdigit (hd rest)"
  shows "stoull (ds @ rest) = (if 2 ^ 64 \<le> decimal_value ds then Inl Out_of_range
                               else Inr (of_nat (decimal_value ds)))"
proof -
  from assms(1) obtain c cs where ds: "ds = c # cs" and c: "isdigit c"
    and all: "list_all isdigit ds"
    by (cases ds) (auto simp: decimal_numeral_def)
  have "dropWhile isspace (ds @ rest) = ds @ rest"
    using ds c isdigit_not_isspace by simp
  moreover have "strip_sign (ds @ rest) = (False, ds @ rest)"
    using ds c isdigit_not_sign by simp
  moreover have "takeWhile isdigit rest = []"
    using assms(2) by (cases rest) simp_all
  then have "takeWhile isdigit (ds @ rest) = ds"
    using all by (simp add: takeWhile_append2 list_all_iff)
  ultimately show ?thesis
    using ds by (simp add: stoull_def Let_def)
qed

lemma stoull_decimal_numeral:
  assumes "decimal_numeral arg"
  shows "stoull arg = (if 2 ^ 64 \<le> decimal_value arg then Inl Out_of_range
                       else Inr (of_nat (decimal_value arg)))"
proof -
  from assms obtain c cs where arg: "arg = c # cs" and c: "isdigit c"
    and all: "list_all isdigit arg"
    by (cases arg) (auto simp: decimal_numeral_def)
  have "dropWhile isspace arg = arg"
    using arg c isdigit_not_isspace by simp
  moreover have "strip_sign arg = (False, arg)"
    using arg c isdigit_not_sign by simp
  moreover have "takeWhile isdigit arg = arg"
    using all by (simp add: takeWhile_eq_all_conv list_all_iff)
  ultimately show ?thesis
    using arg by (simp add: stoull_def Let_def)
qed

lemma stoull_reads_numeric_prefix: "stoull ''12abc'' = Inr 12"
  by (simp add: stoull_def isspace_def isdigit_def decimal_value_def digit_val_def)

text \<open>
  A non-numeric argument that starts with digits is not refused. \<open>12abc\<close> is not a
  decimal numeral, yet \<^verbatim>\<open>std::stoull\<close> reads 12 from it: on the README's device the
  program prints no diagnostic, plans one sample for each of its 196608 threads,
  launches the kernel and returns 0.
\<close>

theorem digits_then_letters_are_accepted:
  "non_numeric ''12abc''
   \<and> outcome (main readme_env [''pi_monte_carlo'', ''12abc'']) = Exit_status 0
   \<and> diagnostics (main readme_env [''pi_monte_carlo'', ''12abc'']) = []
   \<and> kernel_dispatched (main readme_env [''pi_monte_carlo'', ''12abc''])
   \<and> printed_plan (main readme_env [''pi_monte_carlo'', ''12abc'']) =
       Some \<lparr>num_blocks = 768, total_threads = 196608, samples_per_thread = 1,
              total_samples = 12, actual_total_samples = 196608\<rparr>"
proof -
  have "parse_total_samples [''pi_monte_carlo'', ''12abc''] = Inr 12"
    by (simp add: parse_total_samples_def stoull_reads_numeric_prefix)
  then have run: "main readme_env [''pi_monte_carlo'', ''12abc''] = simulate readme_env 12"
    by (rule main_parsed)
  have "make_plan 768 12 = \<lparr>num_blocks = 768, total_threads = 196608, samples_per_thread = 1,
      total_samples = 12, actual_total_samples = 196608\<rparr>"
    by (simp add: make_plan_def total_threads_of_def samples_per_thread_of_def
        actual_total_samples_of_def THREADS_PER_BLOCK_def)
  moreover have "non_numeric ''12abc''"
    by (simp add: non_numeric_def decimal_numeral_def isdigit_def)
  ultimately show ?thesis
    by (simp add: run readme_simulate)
qed

text \<open>
  C9, as the code has it. The first argument is refused, with the invalid-argument
  diagnostic, exit status 1, no CUDA call and no kernel launch, exactly when it holds
  no number to read: after leading white space and one optional sign it ends or goes
  on with a character that is not a decimal digit (\<open>abc\<close> for one). An argument made
  of decimal digits spelling a value below \<open>2\<^sup>6\<^sup>4\<close>, followed by anything that does
  not start with a digit (\<open>12abc\<close> for one), is accepted: the run is the run for that
  value. With no argument the total sample count is \<open>2\<^sup>3\<^sup>0\<close>.
\<close>

theorem argument_without_number_exits_1:
  "(no_leading_number arg \<longrightarrow>
      main env (prog # arg # others) =
        \<lparr>outcome = Exit_status 1, diagnostics = [Invalid_argument_message arg],
         kernel_dispatched = False, printed_plan = None, printed_results = None\<rparr>)
   \<and> (\<not> no_leading_number arg \<longrightarrow>
        diagnostics (main env (prog # arg # others)) \<noteq> [Invalid_argument_message arg])
   \<and> (decimal_numeral ds \<and> decimal_value ds < 2 ^ 64 \<and> (rest = [] \<or> \<not> isdigit (hd rest)) \<longrightarrow>
        main env (prog # (ds @ rest) # others) = simulate env (of_nat (decimal_value ds)))
   \<and> parse_total_samples [prog] = Inr (2 ^ 30)
   \<and> parse_total_samples [] = Inr (2 ^ 30)
   \<and> main env [prog] = simulate env (2 ^ 30)"
proof -
  have refused: "no_leading_number arg \<Longrightarrow>
      main env (prog # arg # others) =
        \<lparr>outcome = Exit_status 1, diagnostics = [Invalid_argument_message arg],
         kernel_dispatched = False, printed_plan = None, printed_results = None\<rparr>"
    using stoull_invalid_iff [of arg] by (simp add: main_def parse_total_samples_def)
  have only: "diagnostics (main env (prog # arg # others)) \<noteq> [Invalid_argument_message arg]"
    if "\<not> no_leading_number arg"
  proof (cases "stoull arg")
    case (Inl e)
    with that stoull_invalid_iff [of arg] have "e = Out_of_range" by (cases e) simp_all
    with Inl show ?thesis by (simp add: main_def parse_total_samples_def)
  next
    case (Inr T)
    have "diagnostics (simulate env T) \<noteq> [Invalid_argument_message arg]"
      by (simp add: simulate_def Let_def cuda_exit_def del: find.simps split: option.splits)
    with Inr show ?thesis by (simp add: main_def parse_total_samples_def)
  qed
  have accepted: "main env (prog # (ds @ rest) # others) = simulate env (of_nat (decimal_value ds))"
    if "decimal_numeral ds" "decimal_value ds < 2 ^ 64" "rest = [] \<or> \<not> isdigit (hd rest)"
    using stoull_digits_then_rest [OF that(1,3)] that(2)
    by (simp add: main_def parse_total_samples_def)
  have "parse_total_samples [prog] = Inr (2 ^ 30)" "parse_total_samples [] = Inr (2 ^ 30)"
    "main env [prog] = simulate env (2 ^ 30)"
    by (simp_all add: main_def parse_total_samples_def)
  with refused only accepted show ?thesis by blast
qed

theorem argument_without_number_exits_1_witness:
  "main readme_env [''pi_monte_carlo'', ''abc''] =
     \<lparr>outcome = Exit_status 1, diagnostics = [Invalid_argument_message ''abc''],
      kernel_dispatched = False, printed_plan = None, printed_results = None\<rparr>
   \<and> diagnostics (main readme_env [''pi_monte_carlo'', ''12abc'']) \<noteq>
       [Invalid_argument_message ''12abc'']
   \<and> main readme_env [''pi_monte_carlo'', ''12abc''] = simulate readme_env 12"
proof -
  have a: "no_leading_number ''abc''"
    by (simp add: no_leading_number_def isspace_def isdigit_def)
  have b: "\<not> no_leading_number ''12abc''"
    by (simp add: no_leading_number_def isspace_def isdigit_def)
  have c: "decimal_numeral ''12'' \<and> decimal_value ''12'' < 2 ^ 64
      \<and> (''abc'' = [] \<or> \<not> isdigit (hd ''abc''))"
    by (simp add: decimal_numeral_def decimal_value_def digit_val_def isdigit_def)
  have v: "(of_nat (decimal_value ''12'') :: u64) = 12"
    by (simp add: decimal_value_def digit_val_def)
  have "main readme_env [''pi_monte_carlo'', ''abc''] =
     \<lparr>outcome = Exit_status 1, diagnostics = [Invalid_argument_message ''abc''],
      kernel_dispatched = False, printed_plan = None, printed_results = None\<rparr>"
    using argument_without_number_exits_1 [of "''abc''" readme_env "''pi_monte_carlo''" "[]"] a
    by blast
  moreover have "diagnostics (main readme_env [''pi_monte_carlo'', ''12abc'']) \<noteq>
       [Invalid_argument_message ''12abc'']"
    using argument_without_number_exits_1 [of "''12abc''" readme_env "''pi_monte_carlo''" "[]"] b
    by blast
  moreover have "main readme_env [''pi_monte_carlo'', ''12'' @ ''abc''] =
      simulate readme_env (of_nat (decimal_value ''12''))"
    using argument_without_number_exits_1 [of _ readme_env "''pi_monte_carlo''" "[]" "''12''" "''abc''"] c
    by blast
  ultimately show ?thesis using v by simp
qed

text \<open>
  C10. For every decimal numeral whose value exceeds \<open>2\<^sup>6\<^sup>4 - 1\<close>,
  \<^verbatim>\<open>std::stoull\<close> throws \<^verbatim>\<open>std::out_of_range\<close>; the handler of line 73 catches
  \<^verbatim>\<open>std::invalid_argument\<close> only, so the program ends by the uncaught exception: no
  diagnostic of its own, no exit status 1, no kernel launch.
\<close>

theorem out_of_range_argument_is_uncaught:
  assumes "decimal_numeral arg" and "2 ^ 64 \<le> decimal_value arg"
  shows "stoull arg = Inl Out_of_range
       \<and> main env (prog # arg # others) =
           \<lparr>outcome = Uncaught_exception, diagnostics = [],
            kernel_dispatched = False, printed_plan = None, printed_results = None\<rparr>"
  using stoull_decimal_numeral [OF assms(1)] assms(2)
  by (simp add: main_def parse_total_samples_def)

theorem out_of_range_argument_is_uncaught_witness:
  "main readme_env [''pi_monte_carlo'', ''18446744073709551616''] =
     \<lparr>outcome = Uncaught_exception, diagnostics = [],
      kernel_dispatched = False, printed_plan = None, printed_results = None\<rparr>"
proof -
  have n: "decimal_numeral ''18446744073709551616''"
    by (simp add: decimal_numeral_def isdigit_def)
  have v: "2 ^ 64 \<le> decimal_value ''18446744073709551616''"
    by (simp add: decimal_value_def digit_val_def)
  show ?thesis
    using out_of_range_argument_is_uncaught [OF n v, of readme_env "''pi_monte_carlo''" "[]"]
    by simp
qed

end
